theory Spec2Isabelle
  imports Main "HOL-Library.Sublist" "HOL-Library.Multiset"
begin

section \<open>The embeddable chat widget runtime\<close>

text \<open>
  The repository ships several variants of one embeddable chat widget. Three of them are
  embedded here:
  \<^item> \<^verbatim>\<open>frontend/public/widget.js\<close>: the generic widget (\<open>AIChatbot.init\<close>, \<open>createChatbot\<close>,
    \<open>sendMessage\<close>);
  \<^item> the widget that follows the auth store in \<^verbatim>\<open>frontend/src/stores/authStore.ts\<close>
    (lines 120--539): the variant with the position-enforcing interval; its definitions carry
    the prefix \<open>hc_\<close>, after the name the script logs for itself;
  \<^item> \<^verbatim>\<open>unnamed/part_003\<close>: the tenant-resolving (by-domain) widget, whose state is the
    record \<open>floors\<close>.

  The browser is the environment of all three. What the scripts observe of it is made
  explicit: the clock (\<open>Date.now()\<close>) is an argument, the outcome of a network call is an
  argument of the step that resumes after the \<open>await\<close>, elements are found by identifier in a
  tree of nodes, and the console is a list of logged lines (their fixed text, without the
  emoji and without the logged objects).
\<close>

subsection \<open>Strings\<close>

text \<open>
  A string is a list of bytes: the UTF-8 encoding of the JavaScript string. The characters
  the scripts treat specially are ASCII (\<open>*\<close>, the line feed), or are matched as whole
  byte sequences here (the bullet U+2022, the white space and the line terminators beyond
  ASCII), so that replacing and trimming on the bytes agree with the scripts on their
  UTF-16 code units.

  The configuration object of \<open>AIChatbot.init\<close>; every field may be missing.
\<close>

record config =
  apiUrl :: "string option"
  primaryColor :: "string option"
  companyName :: "string option"
  welcomeMessage :: "string option"

text \<open>\<open>x || d\<close> on a field that is a string or missing, and \<open>${x}\<close> in a template.\<close>

definition js_or :: "string option \<Rightarrow> string \<Rightarrow> string" where
  "js_or x d = (case x of None \<Rightarrow> d | Some v \<Rightarrow> if v = [] then d else v)"

definition js_str :: "string option \<Rightarrow> string" where
  "js_str x = (case x of None \<Rightarrow> ''undefined'' | Some v \<Rightarrow> v)"

text \<open>The decimal digits of \<open>Date.now()\<close>, as string concatenation renders them.\<close>

fun dec :: "nat \<Rightarrow> string" where
  "dec n = (if n < 10 then [''0123456789'' ! n]
            else dec (n div 10) @ [''0123456789'' ! (n mod 10)])"

declare dec.simps [simp del]

text \<open>
  \<open>String.prototype.trim\<close> removes white space and line terminators from both ends:
  U+0009 to U+000D, U+0020, U+00A0, U+1680, U+2000 to U+200A, U+2028, U+2029, U+202F,
  U+205F, U+3000 and U+FEFF.
\<close>

definition white_space :: "string list" where
  "white_space =
     [[CHR 0x09], [CHR 0x0A], [CHR 0x0B], [CHR 0x0C], [CHR 0x0D], [CHR 0x20],
      [CHR 0xC2, CHR 0xA0], [CHR 0xE1, CHR 0x9A, CHR 0x80],
      [CHR 0xE2, CHR 0x80, CHR 0x80], [CHR 0xE2, CHR 0x80, CHR 0x81],
      [CHR 0xE2, CHR 0x80, CHR 0x82], [CHR 0xE2, CHR 0x80, CHR 0x83],
      [CHR 0xE2, CHR 0x80, CHR 0x84], [CHR 0xE2, CHR 0x80, CHR 0x85],
      [CHR 0xE2, CHR 0x80, CHR 0x86], [CHR 0xE2, CHR 0x80, CHR 0x87],
      [CHR 0xE2, CHR 0x80, CHR 0x88], [CHR 0xE2, CHR 0x80, CHR 0x89],
      [CHR 0xE2, CHR 0x80, CHR 0x8A], [CHR 0xE2, CHR 0x80, CHR 0xA8],
      [CHR 0xE2, CHR 0x80, CHR 0xA9], [CHR 0xE2, CHR 0x80, CHR 0xAF],
      [CHR 0xE2, CHR 0x81, CHR 0x9F], [CHR 0xE3, CHR 0x80, CHR 0x80],
      [CHR 0xEF, CHR 0xBB, CHR 0xBF]]"

function strip_leading :: "string list \<Rightarrow> string \<Rightarrow> string" where
  "strip_leading ws s =
     (case find (\<lambda>w. w \<noteq> [] \<and> prefix w s) ws of
        None \<Rightarrow> s
      | Some w \<Rightarrow> strip_leading ws (drop (length w) s))"
  by pat_completeness auto
termination
proof (relation "measure (\<lambda>(ws, s). length s)")
  show "wf (measure (\<lambda>(ws, s). length s))" by simp
next
  fix ws :: "string list" and s w :: string
  assume "find (\<lambda>w. w \<noteq> [] \<and> prefix w s) ws = Some w"
  then have "w \<noteq> []" and "prefix w s"
    by (auto simp: find_Some_iff)
  then have "s \<noteq> []" by auto
  with \<open>w \<noteq> []\<close> show "((ws, drop (length w) s), (ws, s)) \<in> measure (\<lambda>(ws, s). length s)"
    by simp
qed

declare strip_leading.simps [simp del]

definition trim :: "string \<Rightarrow> string" where
  "trim s = rev (strip_leading (map rev white_space) (rev (strip_leading white_space s)))"

text \<open>\<open>s.replace(/pat/g, rep)\<close> for a literal pattern: left to right, without overlap.\<close>

fun replace_all :: "string \<Rightarrow> string \<Rightarrow> string \<Rightarrow> string" where
  "replace_all pat rep [] = []"
| "replace_all pat rep (c # cs) =
     (if pat \<noteq> [] \<and> prefix pat (c # cs)
      then rep @ replace_all pat rep (drop (length pat) (c # cs))
      else c # replace_all pat rep cs)"

text \<open>
  \<open>s.replace(/\*\*(.*?)\*\*/g, open_tag + '$1</strong>')\<close>. At a position that starts
  with two asterisks the lazy group takes the shortest run up to the next two asterisks;
  the dot matches no line terminator, so the match fails at one and the scan moves on by
  one character.
\<close>

definition line_terminator_at :: "string \<Rightarrow> bool" where
  "line_terminator_at s =
     (prefix [CHR 0x0A] s \<or> prefix [CHR 0x0D] s \<or>
      prefix [CHR 0xE2, CHR 0x80, CHR 0xA8] s \<or> prefix [CHR 0xE2, CHR 0x80, CHR 0xA9] s)"

fun find_close :: "string \<Rightarrow> string \<Rightarrow> (string \<times> string) option" where
  "find_close acc [] = None"
| "find_close acc (c # cs) =
     (if prefix ''**'' (c # cs) then Some (rev acc, drop 2 (c # cs))
      else if line_terminator_at (c # cs) then None
      else find_close (c # acc) cs)"

function replace_bold :: "string \<Rightarrow> string \<Rightarrow> string" where
  "replace_bold open_tag [] = []"
| "replace_bold open_tag (c # cs) =
     (if prefix ''**'' (c # cs)
      then (case find_close [] (drop 2 (c # cs)) of
              Some (g, rest) \<Rightarrow> open_tag @ g @ ''</strong>'' @ replace_bold open_tag rest
            | None \<Rightarrow> c # replace_bold open_tag cs)
      else c # replace_bold open_tag cs)"
  by pat_completeness auto
termination
proof (relation "measure (\<lambda>(t, s). length s)")
  show "wf (measure (\<lambda>(t, s). length s))" by simp
next
  fix open_tag :: string and c :: char and cs :: string
    and x2 :: "string \<times> string" and g rest :: string
  assume found: "find_close [] (drop 2 (c # cs)) = Some x2" "(g, rest) = x2"
  have shorter: "find_close acc s = Some (g', r') \<Longrightarrow> length r' < length s"
    for acc s g' r'
    by (induction acc s rule: find_close.induct) (auto split: if_splits)
  from found have "length rest < length (drop 2 (c # cs))"
    using shorter [of "[]" "drop 2 (c # cs)" g rest] by simp
  then show "((open_tag, rest), (open_tag, c # cs)) \<in> measure (\<lambda>(t, s). length s)"
    by simp
qed simp_all

definition bullet :: string where
  "bullet = [CHR 0xE2, CHR 0x80, CHR 0xA2]"

text \<open>
  The three replacements of widget.js, lines 478--481. Line 480 is written
  \<^verbatim>\<open>'<strong style="color: ${config.primaryColor || '#8B4513'};">$1</strong>'\<close>: the inner
  quotes end the outer single-quoted literal, which no JavaScript parser accepts. The
  model reads the line as the template literal the text spells out, with the colour
  interpolated as in every other fragment of the file. The variant in authStore.ts
  (line 425) has the plain tag.
\<close>

definition formatResponse :: "config \<Rightarrow> string \<Rightarrow> string" where
  \<open>formatResponse c response =
     replace_all (bullet @ '' '') (''&nbsp;&nbsp;'' @ bullet @ '' '')
       (replace_bold (''<strong style="color: '' @ js_or (primaryColor c) ''#8B4513'' @ '';">'')
          (replace_all [CHR 0x0A] ''<br>'' response))\<close>


subsection \<open>JavaScript values and exceptions\<close>

text \<open>
  What \<open>response.json()\<close> can resolve to. A number is kept as the string JavaScript
  renders it to (\<open>0\<close> and \<open>-0\<close> both render to \<open>0\<close>), which is all the scripts observe of
  it. The result of a property read is a \<open>json option\<close>, \<open>None\<close> for \<open>undefined\<close>.
\<close>

datatype json =
    JNull
  | JBool bool
  | JNum string
  | JStr string
  | JArr "json list"
  | JObj "(string \<times> json) list"

fun truthy :: "json option \<Rightarrow> bool" where
  "truthy None = False"
| "truthy (Some JNull) = False"
| "truthy (Some (JBool b)) = b"
| "truthy (Some (JNum r)) = (r \<noteq> ''0'')"
| "truthy (Some (JStr s)) = (s \<noteq> [])"
| "truthy (Some (JArr xs)) = True"
| "truthy (Some (JObj kvs)) = True"

datatype exn = TypeError | SyntaxError | NetworkFailure

text \<open>
  A computation that may throw: \<open>Done\<close> with the state it reached, or \<open>Thrown\<close> with the
  exception and the state at the throw. \<open>try_catch\<close> runs the handler on that state.
\<close>

datatype 'a result = Done 'a | Thrown exn 'a

definition try_catch :: "'a result \<Rightarrow> ('a \<Rightarrow> 'a result) \<Rightarrow> 'a result" where
  "try_catch r handler = (case r of Done x \<Rightarrow> Done x | Thrown e x \<Rightarrow> handler x)"

fun state_of :: "'a result \<Rightarrow> 'a" where
  "state_of (Done x) = x"
| "state_of (Thrown e x) = x"

text \<open>
  \<open>v.p\<close> for one of the names the scripts read (\<open>response\<close>, \<open>detail\<close>, \<open>rag_used\<close>,
  \<open>status\<close>, \<open>tenant\<close>), none of which is a built-in property: reading it from \<open>null\<close>
  throws, an object yields its last binding of the name, anything else \<open>undefined\<close>.
\<close>

fun get_prop :: "json \<Rightarrow> string \<Rightarrow> exn + json option" where
  "get_prop JNull p = Inl TypeError"
| "get_prop (JObj kvs) p = Inr (map_of (rev kvs) p)"
| "get_prop v p = Inr None"

text \<open>String conversion inside a template literal.\<close>

fun join :: "string \<Rightarrow> string list \<Rightarrow> string" where
  "join sep [] = []"
| "join sep [x] = x"
| "join sep (x # y # ys) = x @ sep @ join sep (y # ys)"

fun to_string :: "json \<Rightarrow> string" where
  "to_string JNull = ''null''"
| "to_string (JBool b) = (if b then ''true'' else ''false'')"
| "to_string (JNum r) = r"
| "to_string (JStr s) = s"
| "to_string (JArr xs) = join '','' (map (\<lambda>x. if x = JNull then [] else to_string x) xs)"
| "to_string (JObj kvs) = ''[object Object]''"

subsection \<open>The markup appended to the message list (widget.js)\<close>

text \<open>
  Each \<open>messages.innerHTML += `...`\<close> appends the text of one template literal. The
  definitions below are those literals with every run of white space written as one
  blank; the interpolated expressions are the arguments.
\<close>

definition user_open :: "config \<Rightarrow> string" where
  \<open>user_open c =
     ''<div style=" text-align: right; margin-bottom: 16px; animation: '' @
     ''messageSlideIn 0.3s ease-out; "> <div style=" background: '' @
     ''linear-gradient(135deg, '' @
     (js_or (primaryColor c) ''#8B4513'') @
     '', #CD853F); color: white; padding: 12px 18px; border-radius: 20px 20px 5px '' @
     ''20px; display: inline-block; max-width: 75%; font-size: 14px; line-height: '' @
     ''1.4; box-shadow: 0 2px 8px rgba(139, 69, 19, 0.2); position: relative; '' @
     ''word-wrap: break-word; "> ''\<close>

definition user_close :: "string" where
  \<open>user_close =
     '' <!-- Indicador de env'' @
     [CHR 0xC3, CHR 0xAD] @
     ''o --> <div style=" position: absolute; bottom: -8px; right: 8px; width: 0; '' @
     ''height: 0; border-left: 8px solid transparent; border-right: 8px solid '' @
     ''transparent; border-top: 8px solid #CD853F; "></div> </div> </div>''\<close>

definition user_fragment :: "config \<Rightarrow> string \<Rightarrow> string" where
  "user_fragment c message =
     user_open c @ message @ user_close"

definition typing_fragment :: "config \<Rightarrow> string \<Rightarrow> string" where
  \<open>typing_fragment c typingId =
     ''<div id="'' @
     typingId @
     ''" style=" margin-bottom: 16px; animation: messageSlideIn 0.3s ease-out; "> '' @
     ''<div style="display: flex; align-items: flex-start; gap: 12px;"> <!-- '' @
     ''Avatar del bot --> <div style=" width: 32px; height: 32px; background: '' @
     ''linear-gradient(135deg, '' @
     (js_or (primaryColor c) ''#8B4513'') @
     '', #CD853F); border-radius: 50%; display: flex; align-items: center; '' @
     ''justify-content: center; font-size: 16px; flex-shrink: 0; box-shadow: 0 2px '' @
     ''8px rgba(139, 69, 19, 0.3); ">'' @
     [CHR 0xF0, CHR 0x9F, CHR 0x8E, CHR 0xA8] @
     ''</div> <!-- Indicador de escritura animado --> <div style=" background: '' @
     ''linear-gradient(135deg, #f8f9fa, #e9ecef); padding: 12px 18px; '' @
     ''border-radius: 20px 20px 20px 5px; display: inline-block; font-size: 14px; '' @
     ''color: #6c757d; box-shadow: 0 2px 8px rgba(0,0,0,0.08); border: 1px solid '' @
     ''rgba(0,0,0,0.05); "> <div style="display: flex; align-items: center; gap: '' @
     ''8px;"> <div style="display: flex; gap: 4px;"> <div style=" width: 8px; '' @
     ''height: 8px; background: '' @
     (js_or (primaryColor c) ''#8B4513'') @
     ''; border-radius: 50%; animation: typing-dots 1.4s infinite ease-in-out; '' @
     ''"></div> <div style=" width: 8px; height: 8px; background: '' @
     (js_or (primaryColor c) ''#8B4513'') @
     ''; border-radius: 50%; animation: typing-dots 1.4s infinite ease-in-out '' @
     ''0.2s; "></div> <div style=" width: 8px; height: 8px; background: '' @
     (js_or (primaryColor c) ''#8B4513'') @
     ''; border-radius: 50%; animation: typing-dots 1.4s infinite ease-in-out '' @
     ''0.4s; "></div> </div> <span>Escribiendo...</span> </div> </div> </div> '' @
     ''</div>''\<close>

definition assistant_open :: "config \<Rightarrow> string" where
  \<open>assistant_open c =
     ''<div style=" margin-bottom: 16px; animation: messageSlideIn 0.4s ease-out; '' @
     ''"> <div style="display: flex; align-items: flex-start; gap: 12px;"> <!-- '' @
     ''Avatar del bot --> <div style=" width: 32px; height: 32px; background: '' @
     ''linear-gradient(135deg, '' @
     (js_or (primaryColor c) ''#8B4513'') @
     '', #CD853F); border-radius: 50%; display: flex; align-items: center; '' @
     ''justify-content: center; font-size: 16px; flex-shrink: 0; box-shadow: 0 2px '' @
     ''8px rgba(139, 69, 19, 0.3); ">'' @
     [CHR 0xF0, CHR 0x9F, CHR 0x8E, CHR 0xA8] @
     ''</div> <!-- Mensaje del bot --> <div style=" background: '' @
     ''linear-gradient(135deg, #f8f9fa, #e9ecef); padding: 16px 20px; '' @
     ''border-radius: 20px 20px 20px 5px; max-width: 85%; font-size: 14px; color: '' @
     ''#2c3e50; line-height: 1.5; box-shadow: 0 2px 8px rgba(0,0,0,0.08); border: '' @
     ''1px solid rgba(0,0,0,0.05); position: relative; word-wrap: break-word; "> ''\<close>

definition assistant_close :: "string" where
  \<open>assistant_close =
     '' <!-- Indicador de respuesta autom'' @
     [CHR 0xC3, CHR 0xA1] @
     ''tica --> <div style=" position: absolute; bottom: -8px; left: 8px; width: '' @
     ''0; height: 0; border-left: 8px solid transparent; border-right: 8px solid '' @
     ''transparent; border-top: 8px solid #e9ecef; "></div> </div> </div> </div>''\<close>

definition assistant_fragment :: "config \<Rightarrow> string \<Rightarrow> string" where
  "assistant_fragment c formattedResponse =
     assistant_open c @ formattedResponse @ assistant_close"

definition server_error_open :: "string" where
  \<open>server_error_open =
     ''<div style="margin-bottom: 8px;"> <span style="background: #ffe6e6; '' @
     ''padding: 6px 10px; border-radius: 12px; display: inline-block; max-width: '' @
     ''80%; font-size: 13px; color: #cc0000;"> '' @
     [CHR 0xE2, CHR 0x9D, CHR 0x8C] @
     '' Error: ''\<close>

definition server_error_close :: "string" where
  \<open>server_error_close =
     '' </span> </div>''\<close>

definition server_error_fragment :: "string \<Rightarrow> string" where
  "server_error_fragment detail =
     server_error_open @ detail @ server_error_close"

definition connection_error_open :: "string" where
  \<open>connection_error_open =
     ''<div style="margin-bottom: 8px;"> <span style="background: #ffe6e6; '' @
     ''padding: 6px 10px; border-radius: 12px; display: inline-block; max-width: '' @
     ''80%; font-size: 13px; color: #cc0000;"> '' @
     [CHR 0xE2, CHR 0x9D, CHR 0x8C] @
     '' Error de conexi'' @
     [CHR 0xC3, CHR 0xB3] @
     ''n. Verifica que el backend est'' @
     [CHR 0xC3, CHR 0xA9] @
     '' ejecut'' @
     [CHR 0xC3, CHR 0xA1] @
     ''ndose en ''\<close>

definition connection_error_close :: "string" where
  \<open>connection_error_close =
     '' </span> </div>''\<close>

definition connection_error_fragment :: "config \<Rightarrow> string" where
  "connection_error_fragment c =
     connection_error_open @ js_str (apiUrl c) @ connection_error_close"

text \<open>The welcome text of the mount template, line 230.\<close>

definition default_welcome :: string where
  \<open>default_welcome =
     [CHR 0xC2, CHR 0xA1] @
     ''Hola! Soy el asistente de HC Manos de un Artista '' @
     [CHR 0xF0, CHR 0x9F, CHR 0x8E, CHR 0xA8] @
     ''<br><br>Puedo ayudarte con informaci'' @
     [CHR 0xC3, CHR 0xB3] @
     ''n sobre:<br>'' @
     [CHR 0xE2, CHR 0x80, CHR 0xA2] @
     '' Nuestros servicios de carpinter'' @
     [CHR 0xC3, CHR 0xAD] @
     ''a<br>'' @
     [CHR 0xE2, CHR 0x80, CHR 0xA2] @
     '' Presupuestos y cotizaciones<br>'' @
     [CHR 0xE2, CHR 0x80, CHR 0xA2] @
     '' Tiempos de entrega<br>'' @
     [CHR 0xE2, CHR 0x80, CHR 0xA2] @
     '' Proyectos personalizados<br><br>'' @
     [CHR 0xC2, CHR 0xBF] @
     ''En qu'' @
     [CHR 0xC3, CHR 0xA9] @
     '' puedo ayudarte hoy?''\<close>

subsection \<open>The markup of the authStore.ts widget (lines 360--466)\<close>










subsection \<open>The conversation session (widget.js, lines 341--573)\<close>

text \<open>
  The message list is the list of children of the element \<open>#chat-messages\<close> that the
  closure of the mount captured: one entry per appended fragment, with the identifier the
  fragment's root element carries (only the typing placeholder has one) and its markup.
  \<open>document.getElementById(typingId)\<close> is the first entry with that identifier. The
  markup inside an entry is kept as text and not parsed further: identifiers or unclosed
  elements that a user's text or a response may bring along are outside the model. The
  scroll position, which the script resets after each change, is not part of the state.
\<close>

datatype role = Welcome | User | Typing | Assistant | SystemError

record entry =
  role :: role
  elem_id :: string
  markup :: string

record request =
  req_url :: string
  req_method :: string
  req_headers :: "(string \<times> string) list"
  req_body :: json

text \<open>
  An invocation of \<open>sendMessage\<close> is suspended twice: at \<open>await fetch(...)\<close> and at
  \<open>await response.json()\<close>. A frame keeps what the suspended invocation still needs.
\<close>

datatype stage = AtFetch | AtJson bool

record frame =
  typingId :: string
  stage :: stage

record session =
  cfg :: config
  conversationId :: string
  input_value :: string
  messages :: "entry list"
  requests :: "request list"
  console :: "string list"
  pending :: "frame list"

fun remove_first :: "string \<Rightarrow> entry list \<Rightarrow> entry list" where
  "remove_first i [] = []"
| "remove_first i (e # es) = (if elem_id e = i then es else e # remove_first i es)"

definition append_entry :: "role \<Rightarrow> string \<Rightarrow> string \<Rightarrow> session \<Rightarrow> session" where
  "append_entry r i m s = s\<lparr>messages := messages s @ [\<lparr>role = r, elem_id = i, markup = m\<rparr>]\<rparr>"

text \<open>The call of \<open>fetch\<close>, lines 455--466.\<close>

definition chat_request :: "config \<Rightarrow> string \<Rightarrow> string \<Rightarrow> request" where
  "chat_request c message cid =
     \<lparr>req_url = js_str (apiUrl c) @ ''/api/chat/public'',
      req_method = ''POST'',
      req_headers = [(''Content-Type'', ''application/json'')],
      req_body = JObj [(''message'', JStr message),
                       (''conversation_id'', JStr cid),
                       (''use_rag'', JBool True),
                       (''max_documents'', JNum ''5'')]\<rparr>"

text \<open>
  \<open>sendMessage\<close> up to its first \<open>await\<close>, lines 341--466. \<open>input\<close> and \<open>messages\<close> were
  checked when the handlers were installed, so the guard of line 342 never fires; an
  empty string is falsy, so a blank input leaves everything as it is.
\<close>

definition sendMessage :: "nat \<Rightarrow> session \<Rightarrow> session" where
  "sendMessage now s =
     (let message = trim (input_value s) in
      if message = [] then s
      else
        let s1 = (append_entry User [] (user_fragment (cfg s) message) s)\<lparr>input_value := []\<rparr>;
            tid = ''typing-'' @ dec now;
            s2 = append_entry Typing tid (typing_fragment (cfg s) tid) s1
        in s2\<lparr>requests := requests s2 @ [chat_request (cfg s) message (conversationId s)],
               pending := pending s2 @ [\<lparr>typingId = tid, stage = AtFetch\<rparr>]\<rparr>)"

text \<open>
  The \<open>try\<close> block after the first \<open>await\<close>, lines 468--472: a rejected \<open>fetch\<close> throws
  (\<open>None\<close>); otherwise the placeholder is removed if it is found.
\<close>

definition on_fetch :: "string \<Rightarrow> bool option \<Rightarrow> session \<Rightarrow> session result" where
  "on_fetch tid r s =
     (case r of
        None \<Rightarrow> Thrown NetworkFailure s
      | Some ok \<Rightarrow> Done (s\<lparr>messages := remove_first tid (messages s)\<rparr>))"

text \<open>
  The \<open>try\<close> block from \<open>response.ok\<close> on, lines 474--550, resumed with what
  \<open>response.json()\<close> settled to (\<open>None\<close>: it rejected). Every throw happens before the
  assignment to \<open>innerHTML\<close>, so the state at the throw is the state at the start.
\<close>

definition default_detail :: string where
  "default_detail = ''No se pudo procesar tu mensaje''"

definition on_json :: "bool \<Rightarrow> json option \<Rightarrow> session \<Rightarrow> session result" where
  "on_json ok body s =
     (if ok then
        (case body of
           None \<Rightarrow> Thrown SyntaxError s
         | Some data \<Rightarrow>
             (case get_prop data ''response'' of
                Inl e \<Rightarrow> Thrown e s
              | Inr (Some (JStr response)) \<Rightarrow>
                  (let s1 = append_entry Assistant []
                              (assistant_fragment (cfg s) (formatResponse (cfg s) response)) s
                   in (case get_prop data ''rag_used'' of
                         Inl e \<Rightarrow> Thrown e s1
                       | Inr u \<Rightarrow>
                           Done (if truthy u
                                 then s1\<lparr>console := console s1 @ [''RAG was used for this response'']\<rparr>
                                 else s1)))
              | Inr _ \<Rightarrow> Thrown TypeError s))
      else
        (let errorData = (case body of None \<Rightarrow> JObj [] | Some v \<Rightarrow> v) in
         (case get_prop errorData ''detail'' of
            Inl e \<Rightarrow> Thrown e s
          | Inr d \<Rightarrow>
              Done (append_entry SystemError []
                      (server_error_fragment
                         (case d of
                            None \<Rightarrow> default_detail
                          | Some v \<Rightarrow> if truthy d then to_string v else default_detail))
                      s))))"

text \<open>The \<open>catch\<close> block, lines 552--569.\<close>

definition catch_block :: "string \<Rightarrow> session \<Rightarrow> session" where
  "catch_block tid s =
     (let s1 = s\<lparr>console := console s @ [''Error connecting to backend:'']\<rparr>;
          s2 = s1\<lparr>messages := remove_first tid (messages s1)\<rparr>
      in append_entry SystemError [] (connection_error_fragment (cfg s)) s2)"

definition resume_fetch :: "string \<Rightarrow> bool option \<Rightarrow> session \<Rightarrow> session result" where
  "resume_fetch tid r s = try_catch (on_fetch tid r s) (\<lambda>s'. Done (catch_block tid s'))"

definition resume_json :: "string \<Rightarrow> bool \<Rightarrow> json option \<Rightarrow> session \<Rightarrow> session result" where
  "resume_json tid ok body s = try_catch (on_json ok body s) (\<lambda>s'. Done (catch_block tid s'))"

text \<open>
  One invocation run to its end: how the network call settled, and the two resumptions in
  order. An invocation whose \<open>fetch\<close> rejected never reads a body.
\<close>

datatype outcome = Rejected | Responded bool "json option"

definition complete :: "string \<Rightarrow> outcome \<Rightarrow> session \<Rightarrow> session" where
  "complete tid out s =
     (case out of
        Rejected \<Rightarrow> state_of (resume_fetch tid None s)
      | Responded ok body \<Rightarrow>
          state_of (resume_json tid ok body (state_of (resume_fetch tid (Some ok) s))))"


text \<open>
  The session as the page drives it: the user edits the input field, clicks send (or
  presses Enter) at some clock value, and the pending network calls settle in any order.
  A settle event names the frame by its position; one that fits no frame does nothing.
\<close>

datatype event =
    SetInput string
  | Send nat
  | FetchSettled nat "bool option"
  | JsonSettled nat "json option"

definition drop_frame :: "nat \<Rightarrow> frame list \<Rightarrow> frame list" where
  "drop_frame i fs = take i fs @ drop (Suc i) fs"

fun step :: "event \<Rightarrow> session \<Rightarrow> session" where
  "step (SetInput v) s = s\<lparr>input_value := v\<rparr>"
| "step (Send now) s = sendMessage now s"
| "step (FetchSettled i r) s =
     (if i < length (pending s) \<and> stage (pending s ! i) = AtFetch
      then (let tid = typingId (pending s ! i);
                s1 = state_of (resume_fetch tid r s)
            in (case r of
                  None \<Rightarrow> s1\<lparr>pending := drop_frame i (pending s1)\<rparr>
                | Some ok \<Rightarrow>
                    s1\<lparr>pending := (pending s1)[i := \<lparr>typingId = tid, stage = AtJson ok\<rparr>]\<rparr>))
      else s)"
| "step (JsonSettled i body) s =
     (if i < length (pending s)
      then (case stage (pending s ! i) of
              AtFetch \<Rightarrow> s
            | AtJson ok \<Rightarrow>
                (let tid = typingId (pending s ! i);
                     s1 = state_of (resume_json tid ok body s)
                 in s1\<lparr>pending := drop_frame i (pending s1)\<rparr>))
      else s)"

definition run :: "event list \<Rightarrow> session \<Rightarrow> session" where
  "run evs s = foldl (\<lambda>s e. step e s) s evs"

text \<open>
  The session a mount starts with (lines 27 and 189--233): the identifier made from the
  clock, and a message list that holds the welcome block only.
\<close>

definition welcome_text :: "config \<Rightarrow> string" where
  "welcome_text c = js_or (welcomeMessage c) default_welcome"

definition new_session :: "config \<Rightarrow> string \<Rightarrow> session" where
  "new_session c cid =
     \<lparr>cfg = c, conversationId = cid, input_value = [],
      messages = [\<lparr>role = Welcome, elem_id = [], markup = welcome_text c\<rparr>],
      requests = [], console = [], pending = []\<rparr>"



subsection \<open>The send routine of the authStore.ts widget (lines 355--470)\<close>









subsection \<open>Entries, scenarios and the invariant of the message list\<close>




definition scenario_config :: config where
  "scenario_config =
     \<lparr>apiUrl = Some ''https://x.test'', primaryColor = None, companyName = None,
      welcomeMessage = None\<rparr>"

definition scenario_session :: session where
  "scenario_session = (new_session scenario_config ''web-chat-1000'')\<lparr>input_value := ''hi''\<rparr>"




subsection \<open>The document and the mount routine (widget.js, lines 3--300 and 625--636)\<close>

text \<open>
  The document is the forest of elements below \<open>document.body\<close>, or \<open>None\<close> while the body
  does not exist. An element carries its identifier (empty when it has none), the text
  that the configuration puts into it, and its children; styles, fixed glyphs and fixed
  labels are left out.
\<close>

datatype node = Node (nid: string) (ntext: string) (kids: "node list")

text \<open>
  \<open>document.querySelectorAll('#a, #b').forEach(el => el.remove())\<close>: every element with
  one of the identifiers leaves the document, together with its subtree. (The \<open>try\<close> that
  lines 20--24 put around \<open>el.remove()\<close> guards a call that does not throw.)
\<close>

fun remove_ids :: "string list \<Rightarrow> node list \<Rightarrow> node list" where
  "remove_ids ids [] = []"
| "remove_ids ids (Node i t ks # ns) =
     (if i \<in> set ids then remove_ids ids ns
      else Node i t (remove_ids ids ks) # remove_ids ids ns)"

text \<open>The elements with a given identifier, in document order, and their number.\<close>

fun subtrees_with_id :: "string \<Rightarrow> node list \<Rightarrow> node list" where
  "subtrees_with_id i [] = []"
| "subtrees_with_id i (Node j t ks # ns) =
     (if i = j then [Node j t ks] else []) @ subtrees_with_id i ks @ subtrees_with_id i ns"

definition count_id :: "string \<Rightarrow> node list \<Rightarrow> nat" where
  "count_id i ns = length (subtrees_with_id i ns)"

definition BUTTON_ID :: string where "BUTTON_ID = ''ai-chatbot-button''"
definition WINDOW_ID :: string where "WINDOW_ID = ''ai-chatbot-window''"

text \<open>The tree that the template literal of lines 31--292 parses to.\<close>

definition default_company :: string where
  "default_company = ''HC Manos de un Artista''"

definition message_list :: "config \<Rightarrow> node" where
  "message_list c =
     Node ''chat-messages'' []
       [Node [] []
          [Node [] [] [],
           Node [] [] [Node [] [] [], Node [] (welcome_text c) []]]]"

definition panel :: "config \<Rightarrow> node" where
  "panel c =
     Node WINDOW_ID []
       [Node [] []
          [Node [] []
             [Node [] [] [],
              Node [] [] [Node [] (js_or (companyName c) default_company) [], Node [] [] []]],
           Node ''chat-close'' [] [],
           Node [] [] []],
        message_list c,
        Node [] []
          [Node [] [] [Node ''chat-input'' [] []],
           Node ''chat-send'' [] [Node [] [] []]]]"

definition toggle :: node where
  "toggle = Node BUTTON_ID [] [Node [] [] []]"

definition chatContainer :: "config \<Rightarrow> node" where
  "chatContainer c = Node [] [] [toggle, Node [] [] [], panel c]"

text \<open>
  The page: the document, the console, and the callbacks that are registered and have
  not run yet. \<open>init\<close> registers two (lines 626--636): the callback of \<open>waitForDOM\<close>, which
  runs on \<open>DOMContentLoaded\<close> or after a second and then starts the timer of the mount,
  and the backup. A successful mount registers the set-up of the handlers (line 303),
  which closes over the configuration and the conversation identifier of that mount.
\<close>

datatype task =
    WaitCallback "config option"
  | CreateChatbot "config option"
  | Backup "config option"
  | Setup config string

record page =
  doc_body :: "node list option"
  page_console :: "string list"
  tasks :: "task list"

definition console_log :: "string \<Rightarrow> page \<Rightarrow> page" where
  "console_log line p = p\<lparr>page_console := page_console p @ [line]\<rparr>"

definition AIChatbot_init :: "config option \<Rightarrow> page \<Rightarrow> page" where
  "AIChatbot_init config p = p\<lparr>tasks := tasks p @ [WaitCallback config, Backup config]\<rparr>"

text \<open>
  The \<open>try\<close> block of \<open>createChatbot\<close>, lines 16--618. The configuration is first read
  when the template literal is evaluated; reading a property of \<open>undefined\<close> or \<open>null\<close>
  (\<open>None\<close>) throws there, after the old elements have been removed.
\<close>

definition createChatbot_try :: "config option \<Rightarrow> nat \<Rightarrow> page \<Rightarrow> page result" where
  "createChatbot_try config now p =
     (let p1 = p\<lparr>doc_body := map_option (remove_ids [BUTTON_ID, WINDOW_ID]) (doc_body p)\<rparr>;
          cid = ''web-chat-'' @ dec now
      in (case config of
            None \<Rightarrow> Thrown TypeError p1
          | Some c \<Rightarrow>
              (case doc_body p1 of
                 None \<Rightarrow> Done (console_log ''Document body not ready'' p1)
               | Some ns \<Rightarrow>
                   Done (p1\<lparr>doc_body := Some (ns @ [chatContainer c]),
                            tasks := tasks p1 @ [Setup c cid]\<rparr>))))"

definition createChatbot :: "config option \<Rightarrow> nat \<Rightarrow> page \<Rightarrow> page result" where
  "createChatbot config now p =
     try_catch (createChatbot_try config now p) (\<lambda>p'. Done (console_log ''Error creating chatbot:'' p'))"

text \<open>\<open>document.getElementById(i)\<close> finds an element.\<close>

definition has_id :: "string \<Rightarrow> page \<Rightarrow> bool" where
  "has_id i p = (case doc_body p of None \<Rightarrow> False | Some ns \<Rightarrow> subtrees_with_id i ns \<noteq> [])"

text \<open>The backup of lines 631--636.\<close>

definition backup :: "config option \<Rightarrow> nat \<Rightarrow> page \<Rightarrow> page result" where
  "backup config now p =
     (if \<not> has_id BUTTON_ID p
      then createChatbot config now (console_log ''Retrying chatbot creation...'' p)
      else Done p)"

text \<open>
  The set-up of lines 303--618: it looks the six elements up and, if one is missing, logs
  and returns; otherwise it installs the handlers, whose session starts as \<open>new_session\<close>.
\<close>

definition install_handlers :: "config \<Rightarrow> string \<Rightarrow> page \<Rightarrow> page result" where
  "install_handlers c cid p =
     (if has_id BUTTON_ID p \<and> has_id WINDOW_ID p \<and> has_id ''chat-close'' p \<and>
         has_id ''chat-send'' p \<and> has_id ''chat-input'' p \<and> has_id ''chat-messages'' p
      then Done (console_log ''Chatbot moderno inicializado con efectos avanzados'' p)
      else Done (console_log ''Chatbot elements not found:'' p))"

fun fire :: "task \<Rightarrow> nat \<Rightarrow> page \<Rightarrow> page result" where
  "fire (WaitCallback config) now p = Done (p\<lparr>tasks := tasks p @ [CreateChatbot config]\<rparr>)"
| "fire (CreateChatbot config) now p = createChatbot config now p"
| "fire (Backup config) now p = backup config now p"
| "fire (Setup c cid) now p = install_handlers c cid p"

text \<open>
  What happens on the page: the host calls \<open>init\<close>, or the callback at some position of
  the list runs at some clock value. The callbacks may run in any order, which covers the
  order the timers impose.
\<close>

datatype page_event = Init "config option" | Fire nat nat

fun page_step :: "page_event \<Rightarrow> page \<Rightarrow> page" where
  "page_step (Init config) p = AIChatbot_init config p"
| "page_step (Fire i now) p =
     (if i < length (tasks p)
      then state_of (fire (tasks p ! i) now (p\<lparr>tasks := take i (tasks p) @ drop (Suc i) (tasks p)\<rparr>))
      else p)"

definition page_run :: "page_event list \<Rightarrow> page \<Rightarrow> page" where
  "page_run evs p = foldl (\<lambda>p e. page_step e p) p evs"

text \<open>
  A valid configuration is an object. A mount attempt is pending while the callback of
  \<open>waitForDOM\<close>, the timer of the mount or the backup has not run; the first two mount
  without condition.
\<close>

fun valid_event :: "page_event \<Rightarrow> bool" where
  "valid_event (Init config) = (config \<noteq> None)"
| "valid_event (Fire i now) = True"

fun is_init :: "page_event \<Rightarrow> bool" where
  "is_init (Init config) = True"
| "is_init (Fire i now) = False"

fun valid_task :: "task \<Rightarrow> bool" where
  "valid_task (WaitCallback config) = (config \<noteq> None)"
| "valid_task (CreateChatbot config) = (config \<noteq> None)"
| "valid_task (Backup config) = (config \<noteq> None)"
| "valid_task (Setup c cid) = True"

fun will_mount :: "task \<Rightarrow> bool" where
  "will_mount (WaitCallback config) = True"
| "will_mount (CreateChatbot config) = True"
| "will_mount (Backup config) = False"
| "will_mount (Setup c cid) = False"

fun mount_pending :: "task \<Rightarrow> bool" where
  "mount_pending (WaitCallback config) = True"
| "mount_pending (CreateChatbot config) = True"
| "mount_pending (Backup config) = True"
| "mount_pending (Setup c cid) = False"

definition mounted_once :: "page \<Rightarrow> bool" where
  "mounted_once p =
     (case doc_body p of
        None \<Rightarrow> False
      | Some ns \<Rightarrow> count_id BUTTON_ID ns = 1 \<and> count_id WINDOW_ID ns = 1)"

text \<open>
  The invariant of the mount: the body exists, every registered callback closes over a
  valid configuration, and either a mount that needs no condition is still to run or the
  document holds exactly one toggle control and one panel.
\<close>

definition mount_inv :: "page \<Rightarrow> bool" where
  "mount_inv p \<longleftrightarrow>
     doc_body p \<noteq> None \<and> list_all valid_task (tasks p) \<and>
     (list_ex will_mount (tasks p) \<or> mounted_once p)"


text \<open>
  Pages to evaluate on: an empty one; one that holds an earlier mount with a conversation
  in its message list; and \<open>init\<close> called twice in succession, with both backups and both
  mounts running, interleaved.
\<close>

definition idle_page :: page where
  "idle_page = \<lparr>doc_body = Some [], page_console = [], tasks = []\<rparr>"

definition init_twice :: "page_event list" where
  "init_twice =
     [Init (Some scenario_config), Init (Some scenario_config),
      Fire 0 1000, Fire 0 5000, Fire 0 1001, Fire 0 5001, Fire 0 2000, Fire 0 2500,
      Fire 0 2001, Fire 0 5500, Fire 0 2501]"


subsection \<open>How the browser reads the markup\<close>


subsection \<open>The tenant-resolving widget (unnamed/part_003)\<close>

text \<open>
  The module-level variables of the script and what it changes on the page: the number of
  widget containers it has inserted, the text of the status line, the message list, the
  input field, the network calls it has issued and the console.
\<close>

datatype floors_request = TenantDetect string | ChatByDomain string string

record floors =
  DOMAIN :: string
  currentTenant :: "json option"
  isInitialized :: bool
  isOpen :: bool
  containers :: nat
  tenant_status :: string
  floors_messages :: "entry list"
  floors_input :: string
  floors_requests :: "floors_request list"
  floors_console :: "string list"

definition floors_log :: "string \<Rightarrow> floors \<Rightarrow> floors" where
  "floors_log line s = s\<lparr>floors_console := floors_console s @ [line]\<rparr>"

text \<open>How the tenant lookup settles: \<open>fetch\<close> rejects, or \<open>response.json()\<close> rejects
  (\<open>None\<close>) or yields a value. The status of the response is never looked at.\<close>

datatype lookup = LookupRejected | LookupBody "json option"

text \<open>\<open>detectTenant\<close>, lines 25--42, after its \<open>await\<close>: the new state and the returned flag.\<close>

definition detectTenant_try :: "lookup \<Rightarrow> floors \<Rightarrow> (floors \<times> bool) result" where
  "detectTenant_try lk s =
     (case lk of
        LookupRejected \<Rightarrow> Thrown NetworkFailure (s, False)
      | LookupBody None \<Rightarrow> Thrown SyntaxError (s, False)
      | LookupBody (Some data) \<Rightarrow>
          (case get_prop data ''status'' of
             Inl e \<Rightarrow> Thrown e (s, False)
           | Inr st \<Rightarrow>
               if st = Some (JStr ''success'')
               then (case get_prop data ''tenant'' of
                       Inl e \<Rightarrow> Thrown e (s, False)
                     | Inr t \<Rightarrow>
                         if truthy t
                         then Done (floors_log ''Tenant detected:'' (s\<lparr>currentTenant := t\<rparr>), True)
                         else Done (floors_log ''No tenant found for domain:'' s, False))
               else Done (floors_log ''No tenant found for domain:'' s, False)))"

definition detectTenant :: "lookup \<Rightarrow> floors \<Rightarrow> floors \<times> bool" where
  "detectTenant lk s =
     state_of (try_catch (detectTenant_try lk s)
                 (\<lambda>(s', b). Done (floors_log ''Error detecting tenant:'' s', False)))"

text \<open>\<open>createChatWidget\<close>, lines 89--228: \<open>insertAdjacentHTML\<close> adds one more container;
  nothing is removed first.\<close>

definition floors_welcome_text :: string where
  \<open>floors_welcome_text =
     [CHR 0xC2, CHR 0xA1] @ ''Hola! Soy el asistente de <strong>Floors Installer Pro</strong>. '' @
     [CHR 0xC2, CHR 0xBF] @ ''En qu'' @ [CHR 0xC3, CHR 0xA9] @
     '' puedo ayudarte con la instalaci'' @ [CHR 0xC3, CHR 0xB3] @ ''n de pisos?''\<close>

definition floors_welcome :: entry where
  "floors_welcome = \<lparr>role = Welcome, elem_id = [], markup = floors_welcome_text\<rparr>"

definition createChatWidget :: "floors \<Rightarrow> floors" where
  "createChatWidget s =
     s\<lparr>containers := containers s + 1,
       tenant_status := (if containers s = 0 then ''Conectando...'' else tenant_status s),
       floors_messages := (if containers s = 0 then [floors_welcome] else floors_messages s)\<rparr>"

definition tenant_name :: "json \<Rightarrow> string" where
  "tenant_name t =
     (case get_prop t ''name'' of
        Inr (Some v) \<Rightarrow> to_string v
      | _ \<Rightarrow> ''undefined'')"

definition updateTenantStatus :: "floors \<Rightarrow> floors" where
  "updateTenantStatus s =
     (if containers s = 0 then s
      else (case currentTenant s of
              Some t \<Rightarrow> s\<lparr>tenant_status := ''Conectado: '' @ tenant_name t\<rparr>
            | None \<Rightarrow> s\<lparr>tenant_status := ''Error de conexi'' @ [CHR 0xC3, CHR 0xB3] @ ''n''\<rparr>))"

text \<open>
  \<open>initWidget\<close>, lines 334--356, in its two parts: up to \<open>await detectTenant()\<close>, which
  issues the lookup, and from there on. \<open>isInitialized\<close> is read in the first part and set
  at the end of the second.
\<close>

definition initWidget_begin :: "floors \<Rightarrow> floors" where
  "initWidget_begin s =
     (if isInitialized s then s
      else (let s1 = floors_log ''Domain:'' (floors_log ''Initializing Floors Installer Chatbot...'' s)
            in s1\<lparr>floors_requests := floors_requests s1 @ [TenantDetect (DOMAIN s1)]\<rparr>))"

definition initWidget_resume :: "lookup \<Rightarrow> floors \<Rightarrow> floors" where
  "initWidget_resume lk s =
     (let (s1, tenantDetected) = detectTenant lk s;
          s2 = updateTenantStatus (createChatWidget s1);
          s3 = (if tenantDetected
                then floors_log ''Floors Installer Chatbot initialized successfully'' s2
                else floors_log ''Chatbot initialized but tenant detection failed'' s2)
      in s3\<lparr>isInitialized := True\<rparr>)"

text \<open>
  \<open>handleSendMessage\<close> with \<open>sendMessage\<close>, lines 45--86 and 270--319. Without a tenant
  \<open>sendMessage\<close> returns its error text at once, and the turn ends without a network call:
  the indicator is appended and removed again, the error text is appended. With a tenant
  the request is issued and the invocation is suspended; what follows the response is
  not part of this model.
\<close>

definition no_tenant_text :: string where
  "no_tenant_text =
     ''Error: No se pudo detectar la configuraci'' @ [CHR 0xC3, CHR 0xB3] @
     ''n del asistente para este dominio.''"

definition addMessage :: "role \<Rightarrow> string \<Rightarrow> floors \<Rightarrow> floors" where
  "addMessage r message s =
     s\<lparr>floors_messages := floors_messages s @
          [\<lparr>role = r, elem_id = [], markup = replace_all [CHR 0x0A] ''<br>'' message\<rparr>]\<rparr>"

definition handleSendMessage :: "floors \<Rightarrow> floors" where
  "handleSendMessage s =
     (let message = trim (floors_input s) in
      if message = [] then s
      else
        let s1 = (addMessage User message s)\<lparr>floors_input := []\<rparr>;
            s2 = s1\<lparr>floors_messages := floors_messages s1 @
                   [\<lparr>role = Typing, elem_id = ''typing-indicator'', markup = ''Escribiendo...''\<rparr>]\<rparr>
        in (case currentTenant s2 of
              None \<Rightarrow>
                addMessage SystemError no_tenant_text
                  (s2\<lparr>floors_messages := remove_first ''typing-indicator'' (floors_messages s2)\<rparr>)
            | Some t \<Rightarrow>
                s2\<lparr>floors_requests := floors_requests s2 @ [ChatByDomain message (DOMAIN s2)]\<rparr>))"

text \<open>The state when the script has loaded.\<close>

definition floors_loaded :: "string \<Rightarrow> floors" where
  "floors_loaded d =
     \<lparr>DOMAIN = d, currentTenant = None, isInitialized = False, isOpen = False, containers = 0,
      tenant_status = [], floors_messages = [], floors_input = [], floors_requests = [],
      floors_console = []\<rparr>"

text \<open>\<open>init\<close> called again while the lookup of the first call is still pending.\<close>

definition double_init :: floors where
  "double_init = initWidget_begin (initWidget_begin (floors_loaded ''shop.example''))"

subsection \<open>Inline styles (authStore.ts widget, lines 480--534)\<close>

text \<open>
  An inline style is a finite map from a CSS property name to its value and its
  \<open>!important\<close> flag. Assigning \<open>el.style.prop = v\<close> replaces the declaration of \<open>prop\<close> by
  \<open>v\<close> without priority; assigning \<open>el.style.cssText\<close> replaces every declaration.
\<close>

type_synonym style = "string \<rightharpoonup> (string \<times> bool)"

definition set_prop :: "style \<Rightarrow> string \<Rightarrow> string \<Rightarrow> style" where
  "set_prop st p v = st(p \<mapsto> (v, False))"

definition set_cssText :: "(string \<times> string \<times> bool) list \<Rightarrow> style" where
  "set_cssText decls = map_of decls"

definition prop_value :: "style \<Rightarrow> string \<Rightarrow> string option" where
  "prop_value st p = map_option fst (st p)"

text \<open>
  What \<open>document.getElementById\<close> returns for the two reserved identifiers: the element's
  inline style, or \<open>None\<close> when no such element is in the document.
\<close>

record hc_dom =
  chatButton :: "style option"
  chatWindow :: "style option"

text \<open>The callback of \<open>setInterval(..., 1000)\<close>, lines 480--499.\<close>

definition interval_tick :: "hc_dom \<Rightarrow> hc_dom" where
  "interval_tick d =
     (let d1 = (case chatButton d of
                  None \<Rightarrow> d
                | Some b \<Rightarrow>
                    d\<lparr>chatButton := Some
                      (set_prop (set_prop (set_prop (set_prop (set_prop (set_prop b
                         ''position'' ''fixed'')
                         ''bottom'' ''20px'')
                         ''right'' ''20px'')
                         ''z-index'' ''2147483647'')
                         ''transform'' ''none'')
                         ''transition'' ''none'')\<rparr>)
      in (case chatWindow d1 of
            None \<Rightarrow> d1
          | Some w \<Rightarrow>
              d1\<lparr>chatWindow := Some
                (set_prop (set_prop (set_prop (set_prop w
                   ''position'' ''fixed'')
                   ''bottom'' ''90px'')
                   ''right'' ''20px'')
                   ''z-index'' ''2147483646'')\<rparr>))"

text \<open>
  \<open>enforcePosition\<close>, lines 502--529, the listener for scroll and resize: it overwrites the
  button's whole \<open>cssText\<close>. It looks the panel up as well but does nothing with it.
\<close>

definition button_cssText :: "(string \<times> string \<times> bool) list" where
  "button_cssText =
     [(''position'', ''fixed'', True),
      (''bottom'', ''20px'', True),
      (''right'', ''20px'', True),
      (''width'', ''60px'', True),
      (''height'', ''60px'', True),
      (''z-index'', ''2147483647'', True),
      (''transform'', ''none'', True),
      (''transition'', ''none'', True),
      (''background'', ''linear-gradient(135deg, #2196F3, #1976D2)'', True),
      (''border-radius'', ''50%'', True),
      (''display'', ''flex'', True),
      (''align-items'', ''center'', True),
      (''justify-content'', ''center'', True),
      (''color'', ''white'', True),
      (''font-size'', ''24px'', True),
      (''cursor'', ''pointer'', True),
      (''box-shadow'', ''0 6px 25px rgba(33, 150, 243, 0.4)'', True),
      (''border'', ''3px solid rgba(255,255,255,0.3)'', True),
      (''animation'', ''pulse 2s infinite'', True)]"

definition enforcePosition :: "hc_dom \<Rightarrow> hc_dom" where
  "enforcePosition d =
     (case chatButton d of
        None \<Rightarrow> d
      | Some b \<Rightarrow> d\<lparr>chatButton := Some (set_cssText button_cssText)\<rparr>)"

text \<open>The critical geometry of the toggle control: the values of its stylesheet rule
  (lines 156--163) and of its initial inline style.\<close>

definition critical_geometry :: "hc_dom \<Rightarrow> bool" where
  "critical_geometry d =
     (case chatButton d of
        None \<Rightarrow> False
      | Some b \<Rightarrow>
          prop_value b ''position'' = Some ''fixed'' \<and>
          prop_value b ''bottom'' = Some ''20px'' \<and>
          prop_value b ''right'' = Some ''20px'' \<and>
          prop_value b ''z-index'' = Some ''2147483647'')"

section \<open>Properties\<close>

subsection \<open>Lemmas about the send routine\<close>

lemma remove_first_absent:
  "i \<notin> set (map elem_id es) \<Longrightarrow> remove_first i es = es"
  by (induction es) auto

lemma remove_first_append:
  "i \<notin> set (map elem_id es) \<Longrightarrow> remove_first i (es @ fs) = es @ remove_first i fs"
  by (induction es) auto

lemma sendMessage_accepted:
  assumes "trim (input_value s) \<noteq> []"
  shows "sendMessage now s =
           s\<lparr>messages := messages s @
                 [\<lparr>role = User, elem_id = [], markup = user_fragment (cfg s) (trim (input_value s))\<rparr>,
                  \<lparr>role = Typing, elem_id = ''typing-'' @ dec now,
                   markup = typing_fragment (cfg s) (''typing-'' @ dec now)\<rparr>],
              input_value := [],
              requests := requests s @ [chat_request (cfg s) (trim (input_value s)) (conversationId s)],
              pending := pending s @ [\<lparr>typingId = ''typing-'' @ dec now, stage = AtFetch\<rparr>]\<rparr>"
  using assms by (simp add: sendMessage_def Let_def append_entry_def)

lemma sendMessage_blank:
  "trim (input_value s) = [] \<Longrightarrow> sendMessage now s = s"
  by (simp add: sendMessage_def)

lemma get_prop_Inl: "get_prop v p = Inl e \<longleftrightarrow> v = JNull \<and> e = TypeError"
  by (cases v) auto

lemma get_prop_not_null: "get_prop v p = Inr x \<Longrightarrow> get_prop v q \<noteq> Inl e"
  by (cases v) auto










lemma on_json_Thrown:
  assumes "on_json ok body s = Thrown e s'"
  shows "s' = s"
proof (cases ok)
  case False
  show ?thesis
  proof (cases "get_prop (case body of None \<Rightarrow> JObj [] | Some v \<Rightarrow> v) ''detail''")
    case (Inl a)
    with assms False show ?thesis by (simp add: on_json_def Let_def)
  next
    case (Inr d)
    with assms False show ?thesis by (simp add: on_json_def Let_def)
  qed
next
  case True
  show ?thesis
  proof (cases body)
    case None
    with assms True show ?thesis by (simp add: on_json_def)
  next
    case (Some data)
    show ?thesis
    proof (cases "get_prop data ''response''")
      case (Inl a)
      with assms True Some show ?thesis by (simp add: on_json_def)
    next
      case (Inr r)
      show ?thesis
      proof (cases r)
        case None
        with assms True Some Inr show ?thesis by (simp add: on_json_def)
      next
        case (Some v)
        note v = this
        show ?thesis
        proof (cases "\<exists>t. v = JStr t")
          case False
          with assms True \<open>body = Some data\<close> Inr v show ?thesis
            by (cases v) (simp_all add: on_json_def)
        next
          case True
          then obtain t where t: "v = JStr t" by blast
          from Inr have "get_prop data ''rag_used'' \<noteq> Inl e'" for e'
            by (rule get_prop_not_null)
          then obtain u where "get_prop data ''rag_used'' = Inr u"
            by (cases "get_prop data ''rag_used''") auto
          with assms \<open>ok\<close> \<open>body = Some data\<close> Inr v t show ?thesis
            by (simp add: on_json_def Let_def)
        qed
      qed
    qed
  qed
qed

lemma on_json_Done:
  assumes "on_json ok body s = Done s'"
  shows "\<exists>m lg. s' = (append_entry (if ok then Assistant else SystemError) [] m s)\<lparr>console := lg\<rparr>"
proof (cases ok)
  case False
  show ?thesis
  proof (cases "get_prop (case body of None \<Rightarrow> JObj [] | Some v \<Rightarrow> v) ''detail''")
    case (Inl a)
    with assms False show ?thesis by (simp add: on_json_def Let_def)
  next
    case (Inr d)
    with assms False have "s' = append_entry SystemError []
        (server_error_fragment
           (case d of None \<Rightarrow> default_detail
            | Some v \<Rightarrow> if truthy d then to_string v else default_detail)) s"
      by (simp add: on_json_def Let_def)
    then have "s' = (append_entry SystemError []
        (server_error_fragment
           (case d of None \<Rightarrow> default_detail
            | Some v \<Rightarrow> if truthy d then to_string v else default_detail)) s)\<lparr>console := console s\<rparr>"
      by (simp add: append_entry_def)
    with False show ?thesis by auto
  qed
next
  case True
  show ?thesis
  proof (cases body)
    case None
    with assms True show ?thesis by (simp add: on_json_def)
  next
    case (Some data)
    show ?thesis
    proof (cases "get_prop data ''response''")
      case (Inl a)
      with assms True Some show ?thesis by (simp add: on_json_def)
    next
      case (Inr r)
      show ?thesis
      proof (cases r)
        case None
        with assms True Some Inr show ?thesis by (simp add: on_json_def)
      next
        case (Some v)
        note v = this
        show ?thesis
        proof (cases "\<exists>t. v = JStr t")
          case False
          with assms True \<open>body = Some data\<close> Inr v show ?thesis
            by (cases v) (simp_all add: on_json_def)
        next
          case True
          then obtain t where t: "v = JStr t" by blast
          from Inr have "get_prop data ''rag_used'' \<noteq> Inl e'" for e'
            by (rule get_prop_not_null)
          then obtain u where u: "get_prop data ''rag_used'' = Inr u"
            by (cases "get_prop data ''rag_used''") auto
          let ?s1 = "append_entry Assistant []
                       (assistant_fragment (cfg s) (formatResponse (cfg s) t)) s"
          from assms \<open>ok\<close> \<open>body = Some data\<close> Inr v t u
          have "s' = (if truthy u
                      then ?s1\<lparr>console := console ?s1 @ [''RAG was used for this response'']\<rparr>
                      else ?s1)"
            by (simp add: on_json_def Let_def)
          moreover have "?s1 = ?s1\<lparr>console := console s\<rparr>"
            by (simp add: append_entry_def)
          ultimately show ?thesis
            using \<open>ok\<close> by (cases "truthy u") auto
        qed
      qed
    qed
  qed
qed



lemma resume_fetch_state:
  "state_of (resume_fetch tid r s) =
     (case r of None \<Rightarrow> catch_block tid s
      | Some ok \<Rightarrow> s\<lparr>messages := remove_first tid (messages s)\<rparr>)"
  by (simp add: resume_fetch_def on_fetch_def try_catch_def split: option.splits)




lemma catch_block_fields:
  "cfg (catch_block tid s) = cfg s"
  "conversationId (catch_block tid s) = conversationId s"
  "requests (catch_block tid s) = requests s"
  by (simp_all add: catch_block_def Let_def append_entry_def)

lemma resume_fetch_fields:
  "cfg (state_of (resume_fetch tid r s)) = cfg s"
  "conversationId (state_of (resume_fetch tid r s)) = conversationId s"
  "requests (state_of (resume_fetch tid r s)) = requests s"
  by (simp_all add: resume_fetch_state catch_block_fields split: option.splits)

lemma resume_json_fields:
  "cfg (state_of (resume_json tid ok body s)) = cfg s \<and>
   conversationId (state_of (resume_json tid ok body s)) = conversationId s \<and>
   requests (state_of (resume_json tid ok body s)) = requests s"
proof (cases "on_json ok body s")
  case (Thrown e s0)
  then have "s0 = s" by (rule on_json_Thrown)
  with Thrown show ?thesis
    by (simp add: resume_json_def try_catch_def catch_block_fields)
next
  case (Done s0)
  then obtain m lg where
    "s0 = (append_entry (if ok then Assistant else SystemError) [] m s)\<lparr>console := lg\<rparr>"
    using on_json_Done by blast
  with Done show ?thesis
    by (simp add: resume_json_def try_catch_def append_entry_def)
qed

lemma complete_requests: "requests (complete tid out s) = requests s"
  by (cases out) (simp_all add: complete_def resume_fetch_fields resume_json_fields)

lemma step_requests:
  "cfg (step ev s) = cfg s \<and> conversationId (step ev s) = conversationId s \<and>
   (\<exists>ms. requests (step ev s) = requests s @ map (\<lambda>m. chat_request (cfg s) m (conversationId s)) ms)"
proof (cases ev)
  case (SetInput v)
  then show ?thesis by simp
next
  case (Send now)
  show ?thesis
  proof (cases "trim (input_value s) = []")
    case True
    with Send show ?thesis by (simp add: sendMessage_blank)
  next
    case False
    have "requests (sendMessage now s)
          = requests s @ map (\<lambda>m. chat_request (cfg s) m (conversationId s)) [trim (input_value s)]"
      using False by (simp add: sendMessage_accepted)
    then have "\<exists>ms. requests (sendMessage now s)
          = requests s @ map (\<lambda>m. chat_request (cfg s) m (conversationId s)) ms"
      by blast
    with Send False show ?thesis by (simp add: sendMessage_accepted)
  qed
next
  case (FetchSettled i r)
  then show ?thesis
    by (cases r) (simp_all add: Let_def resume_fetch_fields)
next
  case (JsonSettled i body)
  then show ?thesis
    using resume_json_fields
    by (cases "stage (pending s ! i)") (simp_all add: Let_def)
qed

lemma run_requests:
  "cfg (run evs s) = cfg s \<and> conversationId (run evs s) = conversationId s \<and>
   (\<exists>ms. requests (run evs s) = requests s @ map (\<lambda>m. chat_request (cfg s) m (conversationId s)) ms)"
proof (induction evs arbitrary: s)
  case Nil
  show ?case by (simp add: run_def)
next
  case (Cons ev evs)
  have run_Cons: "run (ev # evs) s = run evs (step ev s)"
    by (simp add: run_def)
  obtain ms1 where s1: "cfg (step ev s) = cfg s" "conversationId (step ev s) = conversationId s"
    "requests (step ev s) = requests s @ map (\<lambda>m. chat_request (cfg s) m (conversationId s)) ms1"
    using step_requests [of ev s] by blast
  obtain ms2 where s2: "cfg (run evs (step ev s)) = cfg (step ev s)"
    "conversationId (run evs (step ev s)) = conversationId (step ev s)"
    "requests (run evs (step ev s))
       = requests (step ev s) @
         map (\<lambda>m. chat_request (cfg (step ev s)) m (conversationId (step ev s))) ms2"
    using Cons.IH [of "step ev s"] by blast
  have "requests (run (ev # evs) s)
        = requests s @ map (\<lambda>m. chat_request (cfg s) m (conversationId s)) (ms1 @ ms2)"
    by (simp add: run_Cons s1 s2)
  then show ?case
    using s1 s2 run_Cons by (metis (no_types, lifting))
qed






subsection \<open>Lemmas about the mount routine\<close>

lemma subtrees_append:
  "subtrees_with_id i (xs @ ys) = subtrees_with_id i xs @ subtrees_with_id i ys"
  by (induction i xs rule: subtrees_with_id.induct) simp_all

lemma subtrees_remove_ids:
  "i \<in> set ids \<Longrightarrow> subtrees_with_id i (remove_ids ids ns) = []"
  by (induction ids ns rule: remove_ids.induct) auto

lemma subtrees_container_window:
  "subtrees_with_id WINDOW_ID [chatContainer c] = [panel c]"
  by (simp add: chatContainer_def toggle_def panel_def message_list_def WINDOW_ID_def BUTTON_ID_def)

lemma subtrees_container_button:
  "subtrees_with_id BUTTON_ID [chatContainer c] = [toggle]"
  by (simp add: chatContainer_def toggle_def panel_def message_list_def WINDOW_ID_def BUTTON_ID_def)

lemma createChatbot_mounts:
  assumes "doc_body p = Some ns"
  shows "createChatbot (Some c) now p
         = Done (p\<lparr>doc_body := Some (remove_ids [BUTTON_ID, WINDOW_ID] ns @ [chatContainer c]),
                    tasks := tasks p @ [Setup c (''web-chat-'' @ dec now)]\<rparr>)"
  using assms by (simp add: createChatbot_def createChatbot_try_def try_catch_def Let_def)

lemma mounted_once_after:
  "mounted_once (p\<lparr>doc_body := Some (remove_ids [BUTTON_ID, WINDOW_ID] ns @ [chatContainer c]),
                   tasks := ts\<rparr>)"
  by (simp add: mounted_once_def count_id_def subtrees_append subtrees_remove_ids
      subtrees_container_window subtrees_container_button)




lemma createChatbot_inv:
  assumes "doc_body p \<noteq> None" and "list_all valid_task (tasks p)"
  shows "mount_inv (state_of (createChatbot (Some c) now p))"
proof -
  from assms(1) obtain ns where ns: "doc_body p = Some ns" by blast
  show ?thesis
    using assms(2) mounted_once_after [where p = p and ns = ns and c = c
        and ts = "tasks p @ [Setup c (''web-chat-'' @ dec now)]"]
    by (simp add: createChatbot_mounts [OF ns] mount_inv_def)
qed

lemma without_task:
  assumes "i < length ts" and "list_all valid_task ts"
  shows "list_all valid_task (take i ts @ drop (Suc i) ts)"
    and "valid_task (ts ! i)"
    and "list_ex will_mount ts \<Longrightarrow> \<not> will_mount (ts ! i)
         \<Longrightarrow> list_ex will_mount (take i ts @ drop (Suc i) ts)"
proof -
  have split: "ts = take i ts @ ts ! i # drop (Suc i) ts"
    using assms(1) by (rule id_take_nth_drop)
  from assms(2) have "list_all valid_task (take i ts @ ts ! i # drop (Suc i) ts)"
    using split by simp
  then show "list_all valid_task (take i ts @ drop (Suc i) ts)" and "valid_task (ts ! i)"
    by simp_all
  assume "list_ex will_mount ts" and "\<not> will_mount (ts ! i)"
  then have "list_ex will_mount (take i ts @ ts ! i # drop (Suc i) ts)"
    using split by simp
  with \<open>\<not> will_mount (ts ! i)\<close> show "list_ex will_mount (take i ts @ drop (Suc i) ts)"
    by simp
qed

lemma mount_inv_step:
  assumes "mount_inv p" and "valid_event ev"
  shows "mount_inv (page_step ev p)"
proof (cases ev)
  case (Init config)
  with assms show ?thesis
    by (auto simp: mount_inv_def AIChatbot_init_def mounted_once_def)
next
  case (Fire i now)
  show ?thesis
  proof (cases "i < length (tasks p)")
    case False
    with Fire assms show ?thesis by simp
  next
    case True
    define p1 where "p1 = p\<lparr>tasks := take i (tasks p) @ drop (Suc i) (tasks p)\<rparr>"
    have st: "page_step ev p = state_of (fire (tasks p ! i) now p1)"
      using Fire True by (simp add: p1_def)
    have body: "doc_body p1 \<noteq> None"
      using assms(1) by (simp add: p1_def mount_inv_def)
    have valid: "list_all valid_task (tasks p1)" and this_valid: "valid_task (tasks p ! i)"
      using without_task(1,2) [OF True] assms(1) by (simp_all add: p1_def mount_inv_def)
    have keep: "\<not> will_mount (tasks p ! i) \<Longrightarrow> list_ex will_mount (tasks p1) \<or> mounted_once p1"
    proof -
      assume nw: "\<not> will_mount (tasks p ! i)"
      from assms(1) have "list_ex will_mount (tasks p) \<or> mounted_once p"
        by (simp add: mount_inv_def)
      then show ?thesis
      proof
        assume "list_ex will_mount (tasks p)"
        then show ?thesis using without_task(3) [OF True _ _ nw] assms(1)
          by (simp add: p1_def mount_inv_def)
      next
        assume "mounted_once p"
        then show ?thesis by (simp add: p1_def mounted_once_def)
      qed
    qed
    show ?thesis
    proof (cases "tasks p ! i")
      case (WaitCallback config)
      then show ?thesis
        using body valid this_valid by (simp add: st mount_inv_def)
    next
      case (CreateChatbot config)
      with this_valid obtain c where "config = Some c" by auto
      with CreateChatbot show ?thesis
        using createChatbot_inv [OF body valid] by (simp add: st)
    next
      case (Backup config)
      with this_valid obtain c where c: "config = Some c" by auto
      show ?thesis
      proof (cases "has_id BUTTON_ID p1")
        case True
        with Backup show ?thesis
          using body valid keep by (simp add: st backup_def mount_inv_def)
      next
        case False
        have "doc_body (console_log ''Retrying chatbot creation...'' p1) \<noteq> None"
          and "list_all valid_task (tasks (console_log ''Retrying chatbot creation...'' p1))"
          using body valid by (simp_all add: console_log_def)
        then have "mount_inv (state_of (createChatbot (Some c) now
                      (console_log ''Retrying chatbot creation...'' p1)))"
          by (rule createChatbot_inv)
        with Backup False c show ?thesis
          by (simp add: st backup_def)
      qed
    next
      case (Setup c cid)
      then show ?thesis
        using body valid keep
        by (simp add: st install_handlers_def mount_inv_def console_log_def mounted_once_def)
    qed
  qed
qed

lemma mount_inv_run:
  "mount_inv p \<Longrightarrow> list_all valid_event evs \<Longrightarrow> mount_inv (page_run evs p)"
  unfolding page_run_def
  by (induction evs arbitrary: p) (simp_all add: mount_inv_step)

lemma mount_inv_from_idle:
  assumes "doc_body p \<noteq> None" and "tasks p = []"
    and "list_all valid_event evs" and "list_ex is_init evs"
  shows "mount_inv (page_run evs p)"
  using assms
proof (induction evs arbitrary: p)
  case Nil
  then show ?case by simp
next
  case (Cons ev evs)
  have run_Cons: "page_run (ev # evs) p = page_run evs (page_step ev p)"
    by (simp add: page_run_def)
  show ?case
  proof (cases ev)
    case (Init config)
    with Cons.prems obtain c where "config = Some c" by auto
    with Init Cons.prems have "mount_inv (page_step ev p)"
      by (simp add: mount_inv_def AIChatbot_init_def)
    then show ?thesis
      using Cons.prems(3) by (simp add: run_Cons mount_inv_run)
  next
    case (Fire i now)
    with Cons.prems have "page_step ev p = p" by simp
    moreover from Fire Cons.prems have "list_ex is_init evs" by simp
    ultimately show ?thesis
      using Cons.IH [of p] Cons.prems by (simp add: run_Cons)
  qed
qed

lemma will_mount_pending: "list_ex will_mount ts \<Longrightarrow> list_ex mount_pending ts"
proof (induction ts)
  case Nil
  then show ?case by simp
next
  case (Cons t ts)
  then show ?case by (cases t) auto
qed

subsection \<open>Lemmas about exceptions\<close>









subsection \<open>Lemmas about the tenant-resolving widget\<close>

text \<open>
  What holds of the degraded mode: a lookup that fails still mounts the widget and leaves
  no tenant; without a tenant a send appends the user's text and the error text and
  issues no request; once \<open>isInitialized\<close> is set, \<open>init\<close> does nothing; and a send never
  issues a lookup.
\<close>

lemma detectTenant_false:
  assumes "\<not> snd (detectTenant lk s)"
  shows "currentTenant (fst (detectTenant lk s)) = currentTenant s \<and>
         containers (fst (detectTenant lk s)) = containers s \<and>
         floors_requests (fst (detectTenant lk s)) = floors_requests s"
  using assms
  by (auto simp: detectTenant_def detectTenant_try_def try_catch_def floors_log_def
      split: lookup.splits option.splits sum.splits if_splits)

lemma failed_lookup_still_mounts:
  assumes "\<not> snd (detectTenant lk s)"
  shows "containers (initWidget_resume lk s) = containers s + 1 \<and>
         currentTenant (initWidget_resume lk s) = currentTenant s \<and>
         isInitialized (initWidget_resume lk s) \<and>
         floors_requests (initWidget_resume lk s) = floors_requests s"
proof -
  obtain s1 b where d: "detectTenant lk s = (s1, b)" by (cases "detectTenant lk s")
  with assms have "\<not> b" and "currentTenant s1 = currentTenant s"
    and "containers s1 = containers s" and "floors_requests s1 = floors_requests s"
    using detectTenant_false [OF assms] by simp_all
  then show ?thesis
    by (simp add: initWidget_resume_def d Let_def createChatWidget_def updateTenantStatus_def
        floors_log_def split: option.splits)
qed

lemma degraded_send:
  assumes "currentTenant s = None" and "trim (floors_input s) \<noteq> []"
    and "''typing-indicator'' \<notin> set (map elem_id (floors_messages s))"
  shows "floors_requests (handleSendMessage s) = floors_requests s \<and>
         floors_messages (handleSendMessage s)
           = floors_messages s @
             [\<lparr>role = User, elem_id = [],
               markup = replace_all [CHR 0x0A] ''<br>'' (trim (floors_input s))\<rparr>,
              \<lparr>role = SystemError, elem_id = [],
               markup = replace_all [CHR 0x0A] ''<br>'' no_tenant_text\<rparr>] \<and>
         currentTenant (handleSendMessage s) = None"
  using assms
  by (simp add: handleSendMessage_def Let_def addMessage_def remove_first_append)

lemma initialized_init_is_idle: "isInitialized s \<Longrightarrow> initWidget_begin s = s"
  by (simp add: initWidget_begin_def)

lemma send_never_looks_up:
  "\<exists>rs. floors_requests (handleSendMessage s) = floors_requests s @ rs \<and>
        (\<forall>r\<in>set rs. \<exists>m d. r = ChatByDomain m d)"
  by (auto simp: handleSendMessage_def Let_def addMessage_def split: option.splits)

subsection \<open>One turn of the conversation\<close>



subsection \<open>Placeholders and sends in flight\<close>




subsection \<open>Failed sends\<close>




subsection \<open>The request of a send\<close>

text \<open>
  Claim C8. An accepted send issues exactly one request: a POST to
  \<open>apiUrl + /api/chat/public\<close> whose body holds the trimmed input as \<open>message\<close>, the
  session's identifier as \<open>conversation_id\<close>, \<open>use_rag: true\<close> and \<open>max_documents: 5\<close>.
  Resuming an invocation issues none. However the session runs, its identifier stays the
  one it was mounted with (\<open>new_session\<close>), and every request it issues carries it.
\<close>

theorem chat_request_per_send:
  "(trim (input_value s) \<noteq> [] \<longrightarrow>
      requests (sendMessage now s)
        = requests s @
          [\<lparr>req_url = js_str (apiUrl (cfg s)) @ ''/api/chat/public'',
            req_method = ''POST'',
            req_headers = [(''Content-Type'', ''application/json'')],
            req_body = JObj [(''message'', JStr (trim (input_value s))),
                             (''conversation_id'', JStr (conversationId s)),
                             (''use_rag'', JBool True),
                             (''max_documents'', JNum ''5'')]\<rparr>]) \<and>
   requests (complete tid out s) = requests s \<and>
   conversationId (run evs s) = conversationId s \<and>
   (\<exists>ms. requests (run evs s)
           = requests s @ map (\<lambda>m. chat_request (cfg s) m (conversationId s)) ms)"
  using run_requests [of evs s]
  by (simp add: sendMessage_accepted chat_request_def complete_requests)

theorem chat_request_per_send_witness:
  "trim (input_value scenario_session) \<noteq> [] \<and>
   requests (sendMessage 5 scenario_session)
     = [\<lparr>req_url = ''https://x.test/api/chat/public'',
         req_method = ''POST'',
         req_headers = [(''Content-Type'', ''application/json'')],
         req_body = JObj [(''message'', JStr ''hi''),
                          (''conversation_id'', JStr ''web-chat-1000''),
                          (''use_rag'', JBool True),
                          (''max_documents'', JNum ''5'')]\<rparr>]"
proof -
  have h1: "trim (input_value scenario_session) \<noteq> []"
    by code_simp
  have h2: "trim (input_value scenario_session) = ''hi''"
    by code_simp
  have "requests (sendMessage 5 scenario_session)
        = requests scenario_session @
          [\<lparr>req_url = js_str (apiUrl (cfg scenario_session)) @ ''/api/chat/public'',
            req_method = ''POST'',
            req_headers = [(''Content-Type'', ''application/json'')],
            req_body = JObj [(''message'', JStr (trim (input_value scenario_session))),
                             (''conversation_id'', JStr (conversationId scenario_session)),
                             (''use_rag'', JBool True),
                             (''max_documents'', JNum ''5'')]\<rparr>]"
    using chat_request_per_send [of scenario_session 5 "[]" Rejected "[]"] h1 by blast
  then show ?thesis
    using h1 by (simp add: h2) (simp add: scenario_session_def new_session_def scenario_config_def js_str_def)
qed

subsection \<open>Mounting\<close>

text \<open>
  Claim C3. On a page whose body exists, let the host call \<open>init\<close> any number of times, at
  least once and always with a configuration object, and let the registered callbacks
  (the mounts and the backups) run in any order. Once no mount attempt is pending, the
  document holds exactly one toggle control and exactly one panel. Each single mount
  already leaves exactly one of each: it removes every element that bears a reserved
  identifier and appends a fresh container.
\<close>

theorem mount_is_idempotent:
  assumes "doc_body p \<noteq> None" and "tasks p = []"
    and "list_all valid_event evs" and "list_ex is_init evs"
    and "\<not> list_ex mount_pending (tasks (page_run evs p))"
  shows "mounted_once (page_run evs p) \<and>
         mounted_once (state_of (createChatbot (Some c) now p)) \<and>
         (\<exists>ns. doc_body p = Some ns \<and>
               doc_body (state_of (createChatbot (Some c) now p))
                 = Some (remove_ids [BUTTON_ID, WINDOW_ID] ns @ [chatContainer c]))"
proof (intro conjI)
  have "mount_inv (page_run evs p)"
    using assms(1-4) by (rule mount_inv_from_idle)
  then have "list_ex will_mount (tasks (page_run evs p)) \<or> mounted_once (page_run evs p)"
    by (simp add: mount_inv_def)
  with assms(5) show "mounted_once (page_run evs p)"
    using will_mount_pending by blast
next
  from assms(1) obtain ns where ns: "doc_body p = Some ns" by blast
  show "mounted_once (state_of (createChatbot (Some c) now p))"
    using mounted_once_after [where p = p and ns = ns and c = c]
    by (simp add: createChatbot_mounts [OF ns])
  show "\<exists>ns. doc_body p = Some ns \<and>
               doc_body (state_of (createChatbot (Some c) now p))
                 = Some (remove_ids [BUTTON_ID, WINDOW_ID] ns @ [chatContainer c])"
    using ns by (simp add: createChatbot_mounts [OF ns])
qed

theorem mount_is_idempotent_witness:
  "doc_body idle_page \<noteq> None \<and> tasks idle_page = [] \<and>
   list_all valid_event init_twice \<and> list_ex is_init init_twice \<and>
   \<not> list_ex mount_pending (tasks (page_run init_twice idle_page)) \<and>
   mounted_once (page_run init_twice idle_page)"
proof -
  have h1: "doc_body idle_page \<noteq> None" by (simp add: idle_page_def)
  have h2: "tasks idle_page = []" by (simp add: idle_page_def)
  have h3: "list_all valid_event init_twice" by (simp add: init_twice_def)
  have h4: "list_ex is_init init_twice" by (simp add: init_twice_def)
  have h5: "\<not> list_ex mount_pending (tasks (page_run init_twice idle_page))"
    by code_simp
  show ?thesis
    using h1 h2 h3 h4 h5 mount_is_idempotent [OF h1 h2 h3 h4 h5] by blast
qed



subsection \<open>Exceptions\<close>



subsection \<open>Markup in messages\<close>



subsection \<open>The tenant lookup\<close>

text \<open>
  Claim C7 on the failing input: \<open>init\<close> is called a second time before the lookup of the
  first call has settled. \<open>isInitialized\<close> is still false then, so a second lookup is
  issued, and when both have settled the page holds two containers.
\<close>

theorem second_init_repeats_lookup:
  "floors_requests double_init = [TenantDetect ''shop.example'', TenantDetect ''shop.example''] \<and>
   containers (initWidget_resume LookupRejected (initWidget_resume LookupRejected double_init)) = 2"
  by (simp add: double_init_def initWidget_begin_def floors_loaded_def floors_log_def Let_def
      initWidget_resume_def detectTenant_def detectTenant_try_def try_catch_def
      createChatWidget_def updateTenantStatus_def)

subsection \<open>The resilience loop\<close>

text \<open>
  Claim C5. Whatever the inline style of the toggle control is (in particular after the
  host page has rewritten its position), one run of the interval callback, and likewise
  one run of the scroll/resize listener, leaves the control with position fixed, bottom
  and right offsets of 20px and z-index 2147483647. The hypothesis says that the control
  is in the document: both callbacks skip an element they do not find.
\<close>

theorem resilience_restores_geometry:
  assumes "chatButton d = Some b"
  shows "critical_geometry (interval_tick d) \<and> critical_geometry (enforcePosition d)"
proof
  show "critical_geometry (interval_tick d)"
    using assms
    by (cases "chatWindow d")
       (simp_all add: critical_geometry_def interval_tick_def Let_def set_prop_def prop_value_def)
  show "critical_geometry (enforcePosition d)"
    using assms
    by (simp add: critical_geometry_def enforcePosition_def set_cssText_def button_cssText_def
        prop_value_def)
qed

theorem resilience_restores_geometry_witness:
  "critical_geometry
     (interval_tick \<lparr>chatButton = Some [''position'' \<mapsto> (''absolute'', True),
                                         ''bottom'' \<mapsto> (''300px'', False)],
                     chatWindow = None\<rparr>) \<and>
   critical_geometry
     (enforcePosition \<lparr>chatButton = Some [''position'' \<mapsto> (''absolute'', True),
                                            ''bottom'' \<mapsto> (''300px'', False)],
                        chatWindow = None\<rparr>)"
proof -
  have h: "chatButton \<lparr>chatButton = Some [''position'' \<mapsto> (''absolute'', True),
                                            ''bottom'' \<mapsto> (''300px'', False)],
                        chatWindow = None\<rparr>
           = Some [''position'' \<mapsto> (''absolute'', True), ''bottom'' \<mapsto> (''300px'', False)]"
    by simp
  show ?thesis
    by (rule resilience_restores_geometry [OF h])
qed

end
